theory Spec2Isabelle
  imports Complex_Main "HOL-Library.Sublist"
begin

section \<open>Geometry types and constants\<close>

text \<open>
  The plugin is TypeScript; its numbers are modelled as exact reals (finite values, no
  rounding), which is the arithmetic the positioning code is written against. The code
  computes in IEEE doubles, which round sums such as \<open>top + height\<close>; the concrete
  evaluations below are at integer rectangles, where every intermediate value is an
  integer or a half and doubles compute exactly what the reals do.

  \<^verbatim>\<open>type PopupPlacement = 'top' | 'bottom'\<close> and \<^verbatim>\<open>interface PopupPosition\<close>
  (main.ts, lines 8 to 15). The field names \<open>top\<close> and \<open>left\<close> carry the suffix
  \<open>_px\<close>, the unit in which \<^verbatim>\<open>PopupManager.position\<close> writes them to the style.
\<close>

datatype PopupPlacement = Top | Bottom

record PopupPosition =
  top_px :: real
  left_px :: real
  placement :: PopupPlacement

text \<open>
  \<^verbatim>\<open>DOMRect\<close> is the browser's rectangle: it stores an origin and a size, and its four
  edges are derived attributes (\<open>top = min(y, y + height)\<close>, \<open>bottom = max(y, y + height)\<close>,
  \<open>left = min(x, x + width)\<close>, \<open>right = max(x, x + width)\<close>). For a rectangle of
  non-negative size, \<open>top = y\<close> and \<open>left = x\<close>.
\<close>

record DOMRect =
  rect_x :: real
  rect_y :: real
  width :: real
  height :: real

definition top_edge :: "DOMRect \<Rightarrow> real" where
  "top_edge r = min (rect_y r) (rect_y r + height r)"

definition bottom_edge :: "DOMRect \<Rightarrow> real" where
  "bottom_edge r = max (rect_y r) (rect_y r + height r)"

definition left_edge :: "DOMRect \<Rightarrow> real" where
  "left_edge r = min (rect_x r) (rect_x r + width r)"

definition right_edge :: "DOMRect \<Rightarrow> real" where
  "right_edge r = max (rect_x r) (rect_x r + width r)"

text \<open>The two attributes of the global \<^verbatim>\<open>window\<close> that the calculator reads.\<close>

record Window =
  innerWidth :: real
  innerHeight :: real

text \<open>\<^verbatim>\<open>class PopupConfig\<close> (main.ts, lines 23 to 48).\<close>

definition TAIL_SIZE :: real where
  "TAIL_SIZE = 6"

definition POPUP_MARGIN :: real where
  "POPUP_MARGIN = 10"

definition TOTAL_OFFSET :: real where
  "TOTAL_OFFSET = TAIL_SIZE + POPUP_MARGIN"

definition SCREEN_MARGIN :: real where
  "SCREEN_MARGIN = 10"

section \<open>PositionCalculator\<close>

text \<open>\<^verbatim>\<open>clampToHorizontalBounds\<close> (main.ts, lines 245 to 250).\<close>

definition clampToHorizontalBounds :: "Window \<Rightarrow> real \<Rightarrow> real \<Rightarrow> real" where
  "clampToHorizontalBounds w left popupWidth =
     (let minLeft = SCREEN_MARGIN;
          maxLeft = innerWidth w - popupWidth - SCREEN_MARGIN
      in max minLeft (min left maxLeft))"

text \<open>\<^verbatim>\<open>calculateHorizontalPosition\<close> (main.ts, lines 175 to 184).\<close>

definition calculateHorizontalPosition :: "Window \<Rightarrow> DOMRect \<Rightarrow> DOMRect \<Rightarrow> real" where
  "calculateHorizontalPosition w selectionRect popupRect =
     (let centerAligned = left_edge selectionRect + width selectionRect / 2 - width popupRect / 2
      in clampToHorizontalBounds w centerAligned (width popupRect))"

text \<open>
  \<^verbatim>\<open>calculateVerticalPosition\<close> (main.ts, lines 189 to 240); the returned object
  \<^verbatim>\<open>{ top, placement }\<close> is a pair.
\<close>

definition calculateVerticalPosition ::
  "Window \<Rightarrow> DOMRect \<Rightarrow> DOMRect \<Rightarrow> real \<times> PopupPlacement" where
  "calculateVerticalPosition w selectionRect popupRect =
     (let viewportHeight = innerHeight w;
          selectionTop = top_edge selectionRect;
          selectionBottom = bottom_edge selectionRect;
          topPlacement = selectionTop - height popupRect - TOTAL_OFFSET
      in if topPlacement \<ge> SCREEN_MARGIN then (topPlacement, Top)
         else
           let bottomPlacement = selectionBottom + TOTAL_OFFSET;
               popupBottom = bottomPlacement + height popupRect
           in if popupBottom \<le> viewportHeight - SCREEN_MARGIN then (bottomPlacement, Bottom)
              else
                let spaceAbove = selectionTop - SCREEN_MARGIN;
                    spaceBelow = viewportHeight - selectionBottom - SCREEN_MARGIN
                in if spaceAbove \<ge> spaceBelow
                   then (max SCREEN_MARGIN topPlacement, Top)
                   else (min (viewportHeight - height popupRect - SCREEN_MARGIN) bottomPlacement,
                         Bottom))"

text \<open>\<^verbatim>\<open>hasCollision\<close> (main.ts, lines 255 to 277).\<close>

definition hasCollision :: "DOMRect \<Rightarrow> PopupPosition \<Rightarrow> DOMRect \<Rightarrow> bool" where
  "hasCollision selectionRect position popupRect =
     (let popupTop = top_px position;
          popupBottom = top_px position + height popupRect;
          popupLeft = left_px position;
          popupRight = left_px position + width popupRect;
          selectionTop = top_edge selectionRect;
          selectionBottom = bottom_edge selectionRect;
          selectionLeft = left_edge selectionRect;
          selectionRight = right_edge selectionRect;
          verticalOverlap = (\<not> (popupBottom < selectionTop \<or> popupTop > selectionBottom));
          horizontalOverlap = (\<not> (popupRight < selectionLeft \<or> popupLeft > selectionRight))
      in verticalOverlap \<and> horizontalOverlap)"

text \<open>\<^verbatim>\<open>forceSafePosition\<close> (main.ts, lines 282 to 309).\<close>

definition forceSafePosition :: "Window \<Rightarrow> DOMRect \<Rightarrow> DOMRect \<Rightarrow> PopupPosition" where
  "forceSafePosition w selectionRect popupRect =
     (let viewportHeight = innerHeight w;
          top0 = top_edge selectionRect - height popupRect - TOTAL_OFFSET;
          (top, placement) =
            (if top0 < SCREEN_MARGIN
             then
               let top1 = bottom_edge selectionRect + TOTAL_OFFSET
               in if top1 + height popupRect > viewportHeight - SCREEN_MARGIN
                  then (max SCREEN_MARGIN (viewportHeight - height popupRect - SCREEN_MARGIN),
                        Bottom)
                  else (top1, Bottom)
             else (top0, Top));
          left = calculateHorizontalPosition w selectionRect popupRect
      in \<lparr>top_px = top, left_px = left, placement = placement\<rparr>)"

text \<open>
  \<^verbatim>\<open>calculate\<close> (main.ts, lines 154 to 170). \<^verbatim>\<open>PopupConfig.DEBUG\<close> is the
  constant \<^verbatim>\<open>false\<close>, so the debug branch is dead; the console warning of the collision
  branch has no effect on the result and is left out.
\<close>

definition calculate :: "Window \<Rightarrow> DOMRect \<Rightarrow> DOMRect \<Rightarrow> PopupPosition" where
  "calculate w selectionRect popupRect =
     (let left = calculateHorizontalPosition w selectionRect popupRect;
          (top, placement) = calculateVerticalPosition w selectionRect popupRect
      in if hasCollision selectionRect
              \<lparr>top_px = top, left_px = left, placement = placement\<rparr> popupRect
         then forceSafePosition w selectionRect popupRect
         else \<lparr>top_px = top, left_px = left, placement = placement\<rparr>)"

text \<open>
  The containment property of the specification: the popup's box, placed at a position,
  lies within \<open>[SCREEN_MARGIN, viewport - SCREEN_MARGIN]\<close> on the horizontal and on the
  vertical axis.
\<close>

definition withinViewportMargins :: "Window \<Rightarrow> PopupPosition \<Rightarrow> DOMRect \<Rightarrow> bool" where
  "withinViewportMargins w position popupRect =
     (SCREEN_MARGIN \<le> left_px position \<and>
      left_px position + width popupRect \<le> innerWidth w - SCREEN_MARGIN \<and>
      SCREEN_MARGIN \<le> top_px position \<and>
      top_px position + height popupRect \<le> innerHeight w - SCREEN_MARGIN)"

section \<open>Strings\<close>

text \<open>
  A JavaScript string is modelled as a \<open>string\<close>, a list of characters.
  \<^verbatim>\<open>s.replace(/p/g, r)\<close> for a pattern \<open>p\<close> that is a literal, non-empty sequence of
  characters: scanning from the left, every occurrence of \<open>p\<close> is replaced by \<open>r\<close> and the
  scan goes on behind the occurrence, so that matches do not overlap.
\<close>

function replaceGlobal :: "string \<Rightarrow> string \<Rightarrow> string \<Rightarrow> string" where
  "replaceGlobal pat rep [] = []"
| "replaceGlobal pat rep (c # cs) =
     (if pat \<noteq> [] \<and> prefix pat (c # cs)
      then rep @ replaceGlobal pat rep (drop (length pat) (c # cs))
      else c # replaceGlobal pat rep cs)"
  by pat_completeness auto
termination
  by (relation "measure (\<lambda>(pat, rep, s). length s)") auto

text \<open>
  \<^verbatim>\<open>String.prototype.trim\<close> removes white space and line terminators at both ends. A
  character of the model is a code unit below 256. Of ECMAScript's white space and line
  terminators these are tab, line feed, vertical tab, form feed, carriage return, space
  and the no-break space U+00A0; the others (U+1680, U+2000 to U+200A, U+2028, U+2029,
  U+202F, U+205F, U+3000, U+FEFF) are code units that the model's strings cannot hold.
\<close>

definition isWhiteSpace :: "char \<Rightarrow> bool" where
  "isWhiteSpace c = (of_char c \<in> {9, 10, 11, 12, 13, 32, 160 :: nat})"

definition trim :: "string \<Rightarrow> string" where
  "trim s = rev (dropWhile isWhiteSpace (rev (dropWhile isWhiteSpace s)))"

section \<open>The host: editor, browser and workspace\<close>

text \<open>
  Modelled from the spec: the host's \<^verbatim>\<open>Editor\<close> (imported from the \<^verbatim>\<open>obsidian\<close>
  package, not part of the source). The specification names two operations of the
  editable surface, "get current selection text" and "replace current selection with
  text". An editor is the document split at the selection; replacing the selection puts
  the text in its place and leaves the cursor behind it, with nothing selected.
\<close>

record Editor =
  beforeSelection :: string
  selection :: string
  afterSelection :: string

definition getSelection :: "Editor \<Rightarrow> string" where
  "getSelection e = selection e"

definition replaceSelection :: "string \<Rightarrow> Editor \<Rightarrow> Editor" where
  "replaceSelection replacement e =
     e\<lparr>beforeSelection := beforeSelection e @ replacement, selection := []\<rparr>"

definition documentText :: "Editor \<Rightarrow> string" where
  "documentText e = beforeSelection e @ selection e @ afterSelection e"

text \<open>
  The callbacks the plugin hands to \<^verbatim>\<open>requestAnimationFrame\<close>: the one of
  \<^verbatim>\<open>PopupManager.show\<close> (line 96) and the one of \<^verbatim>\<open>showPopup\<close> (line 573). The only
  callback handed to \<^verbatim>\<open>setTimeout\<close> is \<^verbatim>\<open>checkSelection\<close>, so the pending timers are
  counted.
\<close>

datatype FrameCallback = AddShowClass | PositionAndRelease

type_synonym editor_ref = nat

text \<open>
  What the plugin reads from and hands to its environment: the editors of the workspace
  (a store, since the plugin keeps a reference to an editor that the host goes on
  changing), the editor of the active Markdown view if there is one, the bounding
  rectangle of the browser's selection range if there is one, the window, the rectangle
  the browser's layout gives the popup element, and the pending frame callbacks and
  timers.
\<close>

record Host =
  editors :: "editor_ref \<Rightarrow> Editor"
  activeEditor :: "editor_ref option"
  rangeRect :: "DOMRect option"
  window :: Window
  popupLayout :: DOMRect
  frames :: "FrameCallback list"
  timers :: nat

definition requestAnimationFrame :: "FrameCallback \<Rightarrow> Host \<Rightarrow> Host" where
  "requestAnimationFrame cb h = h\<lparr>frames := frames h @ [cb]\<rparr>"

definition setTimeout :: "Host \<Rightarrow> Host" where
  "setTimeout h = h\<lparr>timers := Suc (timers h)\<rparr>"

section \<open>PopupManager\<close>

definition POPUP_CLASS :: string where
  "POPUP_CLASS = ''text-selection-linker-popup''"

definition SHOW_CLASS :: string where
  "SHOW_CLASS = ''show''"

definition PLACEMENT_TOP_CLASS :: string where
  "PLACEMENT_TOP_CLASS = ''popup-top''"

definition PLACEMENT_BOTTOM_CLASS :: string where
  "PLACEMENT_BOTTOM_CLASS = ''popup-bottom''"

text \<open>
  The popup element: its class list, whether it is attached to the document body, and
  the two style properties the plugin writes. Its one child, the link button, never
  changes; a click on it is the event \<open>ButtonClick\<close> of the controller below.
\<close>

record HTMLElement =
  classList :: "string list"
  attached :: bool
  style_top :: "real option"
  style_left :: "real option"

definition classList_add :: "string \<Rightarrow> HTMLElement \<Rightarrow> HTMLElement" where
  "classList_add c el =
     (if c \<in> set (classList el) then el else el\<lparr>classList := classList el @ [c]\<rparr>)"

definition classList_remove :: "string list \<Rightarrow> HTMLElement \<Rightarrow> HTMLElement" where
  "classList_remove cs el = el\<lparr>classList := filter (\<lambda>c. c \<notin> set cs) (classList el)\<rparr>"

fun placementName :: "PopupPlacement \<Rightarrow> string" where
  "placementName Top = ''top''"
| "placementName Bottom = ''bottom''"

record PopupManager =
  popup :: "HTMLElement option"

text \<open>
  \<^verbatim>\<open>create\<close> (lines 64 to 73) builds a detached element and holds it. (An element held
  before is not removed by \<^verbatim>\<open>create\<close> itself; its only caller, \<^verbatim>\<open>showPopup\<close>,
  hides first.)
\<close>

definition PopupManager_create :: "PopupManager \<Rightarrow> PopupManager" where
  "PopupManager_create pm =
     pm\<lparr>popup := Some \<lparr>classList = [POPUP_CLASS], attached = False,
                         style_top = None, style_left = None\<rparr>\<rparr>"

text \<open>\<^verbatim>\<open>show\<close> (lines 90 to 99).\<close>

definition PopupManager_show :: "PopupManager \<times> Host \<Rightarrow> PopupManager \<times> Host" where
  "PopupManager_show = (\<lambda>(pm, h).
     case popup pm of
       None \<Rightarrow> (pm, h)
     | Some el \<Rightarrow> (pm\<lparr>popup := Some (el\<lparr>attached := True\<rparr>)\<rparr>,
                  requestAnimationFrame AddShowClass h))"

text \<open>The frame callback of \<^verbatim>\<open>show\<close>: \<^verbatim>\<open>this.popup?.classList.add(SHOW_CLASS)\<close>.\<close>

definition addShowClass :: "PopupManager \<Rightarrow> PopupManager" where
  "addShowClass pm =
     (case popup pm of
        None \<Rightarrow> pm
      | Some el \<Rightarrow> pm\<lparr>popup := Some (classList_add SHOW_CLASS el)\<rparr>)"

text \<open>\<^verbatim>\<open>hide\<close> (lines 104 to 109).\<close>

definition PopupManager_hide :: "PopupManager \<Rightarrow> PopupManager" where
  "PopupManager_hide pm =
     (case popup pm of
        Some el \<Rightarrow> pm\<lparr>popup := None\<rparr>
      | None \<Rightarrow> pm)"

text \<open>\<^verbatim>\<open>position\<close> (lines 114 to 126).\<close>

definition PopupManager_position :: "PopupPosition \<Rightarrow> PopupManager \<Rightarrow> PopupManager" where
  "PopupManager_position position pm =
     (case popup pm of
        None \<Rightarrow> pm
      | Some el \<Rightarrow>
          let el1 = classList_remove [PLACEMENT_TOP_CLASS, PLACEMENT_BOTTOM_CLASS] el;
              el2 = classList_add (''popup-'' @ placementName (placement position)) el1
          in pm\<lparr>popup := Some (el2\<lparr>style_top := Some (top_px position),
                                    style_left := Some (left_px position)\<rparr>)\<rparr>)"

text \<open>\<^verbatim>\<open>getElement\<close> and \<^verbatim>\<open>exists\<close> (lines 131 to 140).\<close>

definition PopupManager_getElement :: "PopupManager \<Rightarrow> HTMLElement option" where
  "PopupManager_getElement pm = popup pm"

definition PopupManager_exists :: "PopupManager \<Rightarrow> bool" where
  "PopupManager_exists pm = (popup pm \<noteq> None)"

text \<open>The popup is visible when it is attached and carries the class \<open>show\<close>.\<close>

definition PopupManager_visible :: "PopupManager \<Rightarrow> bool" where
  "PopupManager_visible pm =
     (case popup pm of
        None \<Rightarrow> False
      | Some el \<Rightarrow> attached el \<and> SHOW_CLASS \<in> set (classList el))"

section \<open>SelectionHandler\<close>

record SelectionHandler =
  editor :: "editor_ref option"

text \<open>\<^verbatim>\<open>setEditor\<close> (lines 357 to 359).\<close>

definition setEditor :: "editor_ref \<Rightarrow> SelectionHandler \<Rightarrow> SelectionHandler" where
  "setEditor r sh = sh\<lparr>editor := Some r\<rparr>"

text \<open>\<^verbatim>\<open>getSelectedText\<close> (lines 364 to 366): \<^verbatim>\<open>this.editor?.getSelection() || ''\<close>.\<close>

definition getSelectedText :: "SelectionHandler \<Rightarrow> Host \<Rightarrow> string" where
  "getSelectedText sh h =
     (case editor sh of
        None \<Rightarrow> ''''
      | Some r \<Rightarrow> (if getSelection (editors h r) = [] then '''' else getSelection (editors h r)))"

text \<open>\<^verbatim>\<open>hasValidSelection\<close> (lines 371 to 373).\<close>

definition hasValidSelection :: "SelectionHandler \<Rightarrow> Host \<Rightarrow> bool" where
  "hasValidSelection sh h = (length (trim (getSelectedText sh h)) > 0)"

text \<open>
  The text that \<^verbatim>\<open>convertToLink\<close> computes from the selected text (lines 396 to 402):
  the two global replacements of line 396, the two of line 399, and the template
  \<^verbatim>\<open>`[[${selectedText}]]`\<close>.
\<close>

definition linkedText :: "string \<Rightarrow> string" where
  "linkedText selectedText =
     (let selectedText1 = replaceGlobal '']]'' '''' (replaceGlobal ''[['' '''' selectedText);
          selectedText2 = replaceGlobal '']'' '''' (replaceGlobal ''['' '''' selectedText1)
      in ''[['' @ selectedText2 @ '']]'')"

text \<open>\<^verbatim>\<open>convertToLink\<close> (lines 388 to 404); its effect is on the editor it is bound to.\<close>

definition convertToLink :: "SelectionHandler \<Rightarrow> Host \<Rightarrow> Host" where
  "convertToLink sh h =
     (case editor sh of
        None \<Rightarrow> h
      | Some r \<Rightarrow>
          let selectedText = getSelectedText sh h
          in if selectedText = [] then h
             else h\<lparr>editors := (editors h)(r := replaceSelection (linkedText selectedText)
                                                  (editors h r))\<rparr>)"

text \<open>\<^verbatim>\<open>getSelectionRect\<close> (lines 409 to 417).\<close>

definition getSelectionRect :: "Host \<Rightarrow> DOMRect option" where
  "getSelectionRect h = rangeRect h"

section \<open>The plugin: TextSelectionLinkerPlugin\<close>

text \<open>
  The plugin object (its two collaborators and its re-entrancy guard, lines 429 to 431)
  together with the host it runs in.
\<close>

record System =
  popupManager :: PopupManager
  selectionHandler :: SelectionHandler
  isProcessing :: bool
  host :: Host

text \<open>\<^verbatim>\<open>this.popupManager.hide()\<close>, as the handlers call it.\<close>

definition hidePopup :: "System \<Rightarrow> System" where
  "hidePopup s = s\<lparr>popupManager := PopupManager_hide (popupManager s)\<rparr>"

text \<open>\<^verbatim>\<open>onunload\<close> (lines 439 to 442).\<close>

definition onunload :: "System \<Rightarrow> System" where
  "onunload s = hidePopup s"

text \<open>
  \<^verbatim>\<open>updatePopupPosition\<close> (lines 482 to 496); \<^verbatim>\<open>popupElement.getBoundingClientRect()\<close>
  is the host's \<open>popupLayout\<close>.
\<close>

definition updatePopupPosition :: "System \<Rightarrow> System" where
  "updatePopupPosition s =
     (case (getSelectionRect (host s), PopupManager_getElement (popupManager s)) of
        (Some selectionRect, Some popupElement) \<Rightarrow>
          let popupRect = popupLayout (host s);
              position = calculate (window (host s)) selectionRect popupRect
          in s\<lparr>popupManager := PopupManager_position position (popupManager s)\<rparr>
      | _ \<Rightarrow> hidePopup s)"

text \<open>\<^verbatim>\<open>handleScrollOrResize\<close> (lines 472 to 477).\<close>

definition handleScrollOrResize :: "System \<Rightarrow> System" where
  "handleScrollOrResize s =
     (if PopupManager_exists (popupManager s) then updatePopupPosition s else s)"

text \<open>\<^verbatim>\<open>positionPopup\<close> (lines 582 to 592).\<close>

definition positionPopup :: "System \<Rightarrow> System" where
  "positionPopup s =
     (case (getSelectionRect (host s), PopupManager_getElement (popupManager s)) of
        (Some selectionRect, Some popupElement) \<Rightarrow>
          let popupRect = popupLayout (host s);
              position = calculate (window (host s)) selectionRect popupRect
          in s\<lparr>popupManager := PopupManager_position position (popupManager s)\<rparr>
      | _ \<Rightarrow> s)"

text \<open>
  \<^verbatim>\<open>showPopup\<close> (lines 560 to 577). Its frame callback is \<open>PositionAndRelease\<close>:
  \<^verbatim>\<open>this.positionPopup(); this.isProcessing = false\<close>.
\<close>

definition showPopup :: "System \<Rightarrow> System" where
  "showPopup s =
     (let s1 = s\<lparr>isProcessing := True\<rparr>;
          s2 = hidePopup s1;
          s3 = s2\<lparr>popupManager := PopupManager_create (popupManager s2)\<rparr>;
          (pm, h) = PopupManager_show (popupManager s3, host s3)
      in s3\<lparr>popupManager := pm, host := requestAnimationFrame PositionAndRelease h\<rparr>)"

definition positionAndRelease :: "System \<Rightarrow> System" where
  "positionAndRelease s = (positionPopup s)\<lparr>isProcessing := False\<rparr>"

fun runFrameCallback :: "FrameCallback \<Rightarrow> System \<Rightarrow> System" where
  "runFrameCallback AddShowClass s = s\<lparr>popupManager := addShowClass (popupManager s)\<rparr>"
| "runFrameCallback PositionAndRelease s = positionAndRelease s"

text \<open>\<^verbatim>\<open>checkSelection\<close> (lines 539 to 555).\<close>

definition checkSelection :: "System \<Rightarrow> System" where
  "checkSelection s =
     (if isProcessing s then s
      else case activeEditor (host s) of
        None \<Rightarrow> hidePopup s
      | Some r \<Rightarrow>
          let s1 = s\<lparr>selectionHandler := setEditor r (selectionHandler s)\<rparr>
          in if hasValidSelection (selectionHandler s1) (host s1)
             then showPopup s1
             else hidePopup s1)"

text \<open>\<^verbatim>\<open>handleMouseUp\<close> (lines 501 to 505).\<close>

definition handleMouseUp :: "System \<Rightarrow> System" where
  "handleMouseUp s = s\<lparr>host := setTimeout (host s)\<rparr>"

text \<open>\<^verbatim>\<open>handleKeyUp\<close> (lines 510 to 524).\<close>

record KeyboardEvent =
  key :: string
  shiftKey :: bool

definition handleKeyUp :: "KeyboardEvent \<Rightarrow> System \<Rightarrow> System" where
  "handleKeyUp event s =
     (if key event = ''Escape'' then hidePopup s
      else
        let isShiftArrowKey = (shiftKey event \<and>
              key event \<in> set [''ArrowLeft'', ''ArrowRight'', ''ArrowUp'', ''ArrowDown''])
        in if isShiftArrowKey then s\<lparr>host := setTimeout (host s)\<rparr> else s)"

text \<open>\<^verbatim>\<open>handleSelectionChange\<close> (lines 529 to 534).\<close>

definition handleSelectionChange :: "System \<Rightarrow> System" where
  "handleSelectionChange s =
     (if PopupManager_exists (popupManager s)
         \<and> \<not> hasValidSelection (selectionHandler s) (host s)
      then hidePopup s else s)"

text \<open>\<^verbatim>\<open>handleConvertToLink\<close> (lines 597 to 600).\<close>

definition handleConvertToLink :: "System \<Rightarrow> System" where
  "handleConvertToLink s =
     hidePopup (s\<lparr>host := convertToLink (selectionHandler s) (host s)\<rparr>)"

subsection \<open>Events\<close>

text \<open>
  The events the plugin registers for (lines 447 to 467), the two kinds of deferred
  callbacks, the click on the popup's button, and unloading. An event carries what the
  environment has changed when it is delivered:
  \<^item> \<open>EditorChange r e\<close>: the host has changed the text or the selection of editor
    \<open>r\<close>, which now is \<open>e\<close>; no handler of the plugin runs.
  \<^item> \<open>SelectionChange\<close>: the document's \<^verbatim>\<open>selectionchange\<close> event is delivered to the
    listener registered in line 455. The browser dispatches it on its own, after the
    change it announces, so other events can come in between.
  \<^item> \<open>Relayout\<close>: the geometry that the plugin reads (the rectangle of the selection
    range, the window, the popup's layout) has changed; no handler runs.
  \<^item> \<open>ActiveLeafChange a\<close>: the active Markdown view's editor is now \<open>a\<close>.
  \<^item> \<open>Timeout\<close>: a pending timer fires and runs \<^verbatim>\<open>checkSelection\<close>.
  \<^item> \<open>AnimationFrame\<close>: the browser runs the pending frame callbacks, in order.
  An event is enabled when it can happen: a timer fires only if one is pending, a frame
  runs callbacks only if some are pending, the button is clicked only while the popup is
  attached. Events after \<open>Unload\<close> are not excluded, which only adds reachable states.
\<close>

datatype Event =
  MouseUp
| KeyUp KeyboardEvent
| EditorChange editor_ref Editor
| SelectionChange
| ScrollOrResize
| Relayout "DOMRect option" Window DOMRect
| ActiveLeafChange "editor_ref option"
| Timeout
| AnimationFrame
| ButtonClick
| Unload

fun enabled :: "Event \<Rightarrow> System \<Rightarrow> bool" where
  "enabled Timeout s = (timers (host s) > 0)"
| "enabled AnimationFrame s = (frames (host s) \<noteq> [])"
| "enabled ButtonClick s =
     (case popup (popupManager s) of None \<Rightarrow> False | Some el \<Rightarrow> attached el)"
| "enabled _ s = True"

fun step :: "Event \<Rightarrow> System \<Rightarrow> System" where
  "step MouseUp s = handleMouseUp s"
| "step (KeyUp event) s = handleKeyUp event s"
| "step (EditorChange r e) s = s\<lparr>host := (host s)\<lparr>editors := (editors (host s))(r := e)\<rparr>\<rparr>"
| "step SelectionChange s = handleSelectionChange s"
| "step ScrollOrResize s = handleScrollOrResize s"
| "step (Relayout rr w pl) s =
     s\<lparr>host := (host s)\<lparr>rangeRect := rr, window := w, popupLayout := pl\<rparr>\<rparr>"
| "step (ActiveLeafChange a) s = hidePopup (s\<lparr>host := (host s)\<lparr>activeEditor := a\<rparr>\<rparr>)"
| "step Timeout s = checkSelection (s\<lparr>host := (host s)\<lparr>timers := timers (host s) - 1\<rparr>\<rparr>)"
| "step AnimationFrame s =
     fold runFrameCallback (frames (host s)) (s\<lparr>host := (host s)\<lparr>frames := []\<rparr>\<rparr>)"
| "step ButtonClick s = handleConvertToLink s"
| "step Unload s = onunload s"

text \<open>
  The plugin starts with no popup, no editor bound and the guard down (lines 429 to 431),
  in a host with no callback of the plugin pending.
\<close>

definition initialSystem :: "Host \<Rightarrow> System" where
  "initialSystem h =
     \<lparr>popupManager = \<lparr>popup = None\<rparr>, selectionHandler = \<lparr>editor = None\<rparr>,
      isProcessing = False, host = h\<rparr>"

text \<open>The one event that is the host's doing alone and runs no code of the plugin.\<close>

fun isEditorChange :: "Event \<Rightarrow> bool" where
  "isEditorChange (EditorChange r e) = True"
| "isEditorChange _ = False"

inductive reachable :: "System \<Rightarrow> bool" where
  initial: "frames h = [] \<Longrightarrow> timers h = 0 \<Longrightarrow> reachable (initialSystem h)"
| event: "reachable s \<Longrightarrow> enabled e s \<Longrightarrow> reachable (step e s)"

section \<open>Notions of the specification\<close>

text \<open>
  The specification's \<open>strip\<close>: a text with every \<open>[\<close> and every \<open>]\<close> removed, all
  other characters kept in their order.
\<close>

definition isBracket :: "char \<Rightarrow> bool" where
  "isBracket c = (c = CHR ''['' \<or> c = CHR '']'')"

definition stripBrackets :: "string \<Rightarrow> string" where
  "stripBrackets s = filter (\<lambda>c. \<not> isBracket c) s"

text \<open>
  The invariant of the specification's data model: no popup is held while the selection
  of the bound editor is invalid.
\<close>

definition selectionInvariant :: "System \<Rightarrow> bool" where
  "selectionInvariant s =
     (PopupManager_exists (popupManager s) \<longrightarrow>
        hasValidSelection (selectionHandler s) (host s))"

text \<open>
  A host for the examples: one document \<open>see a[b]]c[[d now\<close> in every editor, with
  \<open>a[b]]c[[d\<close> selected, editor 0 active, and the geometry of the specification's
  scenarios.
\<close>

definition exampleHost :: Host where
  "exampleHost =
     \<lparr>editors = (\<lambda>r. \<lparr>beforeSelection = ''see '', selection = ''a[b]]c[[d'',
                        afterSelection = '' now''\<rparr>),
      activeEditor = Some 0,
      rangeRect = Some \<lparr>rect_x = 100, rect_y = 500, width = 80, height = 20\<rparr>,
      window = \<lparr>innerWidth = 1000, innerHeight = 800\<rparr>,
      popupLayout = \<lparr>rect_x = 0, rect_y = 0, width = 120, height = 40\<rparr>,
      frames = [], timers = 0\<rparr>"

text \<open>
  An example run: the pointer is released over that selection, the timer fires and the
  popup is created, the next frame shows and places it. And an editor in which a space
  and a no-break space are selected, and nothing else.
\<close>

definition shownExample :: System where
  "shownExample = step AnimationFrame (step Timeout (step MouseUp (initialSystem exampleHost)))"

definition blankSelection :: Editor where
  "blankSelection =
     \<lparr>beforeSelection = ''see a[b]]c[[d'', selection = [CHR 0x20, CHR 0xA0],
      afterSelection = ''now''\<rparr>"

section \<open>Properties of the position calculator\<close>

lemmas PopupConfig_defs = TAIL_SIZE_def POPUP_MARGIN_def TOTAL_OFFSET_def SCREEN_MARGIN_def

lemmas edge_defs = top_edge_def bottom_edge_def left_edge_def right_edge_def

lemmas calculator_defs = calculate_def calculateVerticalPosition_def
  calculateHorizontalPosition_def clampToHorizontalBounds_def hasCollision_def
  forceSafePosition_def

text \<open>
  Claim C1 says that for every selection rectangle, popup rectangle and viewport the
  placement returned by \<open>calculate\<close> describes a popup box that does not overlap the
  selection box on both axes at once. The code does not keep this. A selection from 20px
  to 780px in a viewport 800px high leaves room for a 40px popup neither above nor
  below; the vertical step answers \<open>top = 10\<close>, the collision check fires, and
  \<open>forceSafePosition\<close>, whose result is returned unchecked, clamps to \<open>top = 750\<close>: the
  popup then covers 750 to 790 vertically and 80 to 200 horizontally, on the selection
  (20 to 780, 100 to 180) on both axes.
\<close>

theorem calculate_overlaps_selection:
  "calculateVerticalPosition \<lparr>innerWidth = 1000, innerHeight = 800\<rparr>
     \<lparr>rect_x = 100, rect_y = 20, width = 80, height = 760\<rparr>
     \<lparr>rect_x = 0, rect_y = 0, width = 120, height = 40\<rparr> = (10, Top) \<and>
   forceSafePosition \<lparr>innerWidth = 1000, innerHeight = 800\<rparr>
     \<lparr>rect_x = 100, rect_y = 20, width = 80, height = 760\<rparr>
     \<lparr>rect_x = 0, rect_y = 0, width = 120, height = 40\<rparr>
   = \<lparr>top_px = 750, left_px = 80, placement = Bottom\<rparr> \<and>
   calculate \<lparr>innerWidth = 1000, innerHeight = 800\<rparr>
     \<lparr>rect_x = 100, rect_y = 20, width = 80, height = 760\<rparr>
     \<lparr>rect_x = 0, rect_y = 0, width = 120, height = 40\<rparr>
   = \<lparr>top_px = 750, left_px = 80, placement = Bottom\<rparr> \<and>
   hasCollision \<lparr>rect_x = 100, rect_y = 20, width = 80, height = 760\<rparr>
     (calculate \<lparr>innerWidth = 1000, innerHeight = 800\<rparr>
        \<lparr>rect_x = 100, rect_y = 20, width = 80, height = 760\<rparr>
        \<lparr>rect_x = 0, rect_y = 0, width = 120, height = 40\<rparr>)
     \<lparr>rect_x = 0, rect_y = 0, width = 120, height = 40\<rparr>"
  by (simp add: calculator_defs edge_defs PopupConfig_defs)

text \<open>
  Claim C2, as stated, fails for a selection that has been scrolled out of the viewport.
  With the selection at 900px in a viewport 800px high the placement above the selection
  is accepted (\<open>900 - 40 - 16 = 844 \<ge> 10\<close>) although the popup then ends at 884px, below
  the viewport; both size conditions of the claim hold.
\<close>

theorem calculate_containment_counterexample:
  "height \<lparr>rect_x = 0, rect_y = 0, width = 120, height = 40\<rparr>
     \<le> innerHeight \<lparr>innerWidth = 1000, innerHeight = 800\<rparr> - 2 * SCREEN_MARGIN \<and>
   width \<lparr>rect_x = 0, rect_y = 0, width = 120, height = 40\<rparr>
     \<le> innerWidth \<lparr>innerWidth = 1000, innerHeight = 800\<rparr> - 2 * SCREEN_MARGIN \<and>
   calculate \<lparr>innerWidth = 1000, innerHeight = 800\<rparr>
     \<lparr>rect_x = 100, rect_y = 900, width = 80, height = 20\<rparr>
     \<lparr>rect_x = 0, rect_y = 0, width = 120, height = 40\<rparr>
   = \<lparr>top_px = 844, left_px = 80, placement = Top\<rparr> \<and>
   \<not> withinViewportMargins \<lparr>innerWidth = 1000, innerHeight = 800\<rparr>
       (calculate \<lparr>innerWidth = 1000, innerHeight = 800\<rparr>
          \<lparr>rect_x = 100, rect_y = 900, width = 80, height = 20\<rparr>
          \<lparr>rect_x = 0, rect_y = 0, width = 120, height = 40\<rparr>)
       \<lparr>rect_x = 0, rect_y = 0, width = 120, height = 40\<rparr>"
  by (simp add: calculator_defs edge_defs PopupConfig_defs withinViewportMargins_def)

text \<open>
  Claim C2, amended: when \<open>popupHeight \<le> viewportHeight - 2 * SCREEN_MARGIN\<close> and
  \<open>popupWidth \<le> viewportWidth - 2 * SCREEN_MARGIN\<close>, and the selection is not out of
  reach of the viewport (its top edge is at most
  \<open>viewportHeight - SCREEN_MARGIN + TOTAL_OFFSET\<close> and its bottom edge is at least
  \<open>SCREEN_MARGIN - TOTAL_OFFSET\<close>, as for every selection that lies in the viewport), the
  placement returned by \<open>calculate\<close> keeps the popup's box within
  \<open>[SCREEN_MARGIN, viewport - SCREEN_MARGIN]\<close> on both axes.
\<close>

theorem calculate_within_viewport:
  assumes "height popupRect \<le> innerHeight w - 2 * SCREEN_MARGIN"
    and "width popupRect \<le> innerWidth w - 2 * SCREEN_MARGIN"
    and "top_edge selectionRect \<le> innerHeight w - SCREEN_MARGIN + TOTAL_OFFSET"
    and "SCREEN_MARGIN - TOTAL_OFFSET \<le> bottom_edge selectionRect"
  shows "withinViewportMargins w (calculate w selectionRect popupRect) popupRect"
  using assms
  unfolding withinViewportMargins_def calculate_def calculateVerticalPosition_def
    calculateHorizontalPosition_def clampToHorizontalBounds_def forceSafePosition_def
    Let_def PopupConfig_defs
  by (auto split: if_splits)

theorem calculate_within_viewport_witness:
  "height \<lparr>rect_x = 0, rect_y = 0, width = 120, height = 40\<rparr>
     \<le> innerHeight \<lparr>innerWidth = 1000, innerHeight = 800\<rparr> - 2 * SCREEN_MARGIN \<and>
   width \<lparr>rect_x = 0, rect_y = 0, width = 120, height = 40\<rparr>
     \<le> innerWidth \<lparr>innerWidth = 1000, innerHeight = 800\<rparr> - 2 * SCREEN_MARGIN \<and>
   top_edge \<lparr>rect_x = 100, rect_y = 500, width = 80, height = 20\<rparr>
     \<le> innerHeight \<lparr>innerWidth = 1000, innerHeight = 800\<rparr> - SCREEN_MARGIN + TOTAL_OFFSET \<and>
   SCREEN_MARGIN - TOTAL_OFFSET
     \<le> bottom_edge \<lparr>rect_x = 100, rect_y = 500, width = 80, height = 20\<rparr> \<and>
   withinViewportMargins \<lparr>innerWidth = 1000, innerHeight = 800\<rparr>
     (calculate \<lparr>innerWidth = 1000, innerHeight = 800\<rparr>
        \<lparr>rect_x = 100, rect_y = 500, width = 80, height = 20\<rparr>
        \<lparr>rect_x = 0, rect_y = 0, width = 120, height = 40\<rparr>)
     \<lparr>rect_x = 0, rect_y = 0, width = 120, height = 40\<rparr>"
proof -
  have h1: "height \<lparr>rect_x = 0, rect_y = 0, width = 120, height = 40\<rparr>
     \<le> innerHeight \<lparr>innerWidth = 1000, innerHeight = 800\<rparr> - 2 * SCREEN_MARGIN"
    by (simp add: PopupConfig_defs)
  have h2: "width \<lparr>rect_x = 0, rect_y = 0, width = 120, height = 40\<rparr>
     \<le> innerWidth \<lparr>innerWidth = 1000, innerHeight = 800\<rparr> - 2 * SCREEN_MARGIN"
    by (simp add: PopupConfig_defs)
  have h3: "top_edge \<lparr>rect_x = 100, rect_y = 500, width = 80, height = 20\<rparr>
     \<le> innerHeight \<lparr>innerWidth = 1000, innerHeight = 800\<rparr> - SCREEN_MARGIN + TOTAL_OFFSET"
    by (simp add: edge_defs PopupConfig_defs)
  have h4: "SCREEN_MARGIN - TOTAL_OFFSET
     \<le> bottom_edge \<lparr>rect_x = 100, rect_y = 500, width = 80, height = 20\<rparr>"
    by (simp add: edge_defs PopupConfig_defs)
  from calculate_within_viewport [OF h1 h2 h3 h4] h1 h2 h3 h4 show ?thesis
    by blast
qed

text \<open>
  Claim C6, as stated of \<open>calculate\<close>, fails. In a viewport 100px high, with the
  selection from 40px to 60px and a popup 40px high, neither placement fits and the
  space above equals the space below (30px each). The vertical step chooses the side
  above with \<open>top = 10\<close>, but the popup so placed lies on the selection, the collision
  check fires, and \<open>calculate\<close> returns the forced position: \<open>top = 50\<close>, side below.
\<close>

theorem calculate_tie_counterexample:
  "top_edge \<lparr>rect_x = 100, rect_y = 40, width = 80, height = 20\<rparr>
     - height \<lparr>rect_x = 0, rect_y = 0, width = 120, height = 40\<rparr> - TOTAL_OFFSET < SCREEN_MARGIN \<and>
   bottom_edge \<lparr>rect_x = 100, rect_y = 40, width = 80, height = 20\<rparr> + TOTAL_OFFSET
     + height \<lparr>rect_x = 0, rect_y = 0, width = 120, height = 40\<rparr>
     > innerHeight \<lparr>innerWidth = 1000, innerHeight = 100\<rparr> - SCREEN_MARGIN \<and>
   top_edge \<lparr>rect_x = 100, rect_y = 40, width = 80, height = 20\<rparr> - SCREEN_MARGIN
     = innerHeight \<lparr>innerWidth = 1000, innerHeight = 100\<rparr>
         - bottom_edge \<lparr>rect_x = 100, rect_y = 40, width = 80, height = 20\<rparr> - SCREEN_MARGIN \<and>
   calculateVerticalPosition \<lparr>innerWidth = 1000, innerHeight = 100\<rparr>
     \<lparr>rect_x = 100, rect_y = 40, width = 80, height = 20\<rparr>
     \<lparr>rect_x = 0, rect_y = 0, width = 120, height = 40\<rparr> = (10, Top) \<and>
   calculate \<lparr>innerWidth = 1000, innerHeight = 100\<rparr>
     \<lparr>rect_x = 100, rect_y = 40, width = 80, height = 20\<rparr>
     \<lparr>rect_x = 0, rect_y = 0, width = 120, height = 40\<rparr>
   = \<lparr>top_px = 50, left_px = 80, placement = Bottom\<rparr> \<and>
   placement (calculate \<lparr>innerWidth = 1000, innerHeight = 100\<rparr>
     \<lparr>rect_x = 100, rect_y = 40, width = 80, height = 20\<rparr>
     \<lparr>rect_x = 0, rect_y = 0, width = 120, height = 40\<rparr>) \<noteq> Top"
  by (simp add: calculator_defs edge_defs PopupConfig_defs)

text \<open>
  Claim C6, amended: in the fallback branch of the vertical step
  (\<open>calculateVerticalPosition\<close>, when neither the placement above nor the placement
  below fits) the space above is compared with the space below by \<open>\<ge>\<close>. When the space
  above is at least the space below, and so when the two are equal, the step chooses the
  side above with \<open>top = max(SCREEN_MARGIN, topPlacement)\<close>; when it is smaller, the
  step chooses the side below with
  \<open>top = min(viewportHeight - popupHeight - SCREEN_MARGIN, bottomPlacement)\<close>. And
  \<open>calculate\<close> returns the step's choice whenever its collision check does not fire
  on it.
\<close>

theorem calculateVerticalPosition_fallback_side:
  assumes "top_edge selectionRect - height popupRect - TOTAL_OFFSET < SCREEN_MARGIN"
    and "bottom_edge selectionRect + TOTAL_OFFSET + height popupRect
           > innerHeight w - SCREEN_MARGIN"
  shows "(top_edge selectionRect - SCREEN_MARGIN
            \<ge> innerHeight w - bottom_edge selectionRect - SCREEN_MARGIN \<longrightarrow>
          calculateVerticalPosition w selectionRect popupRect =
            (max SCREEN_MARGIN (top_edge selectionRect - height popupRect - TOTAL_OFFSET),
             Top)) \<and>
         (top_edge selectionRect - SCREEN_MARGIN
            < innerHeight w - bottom_edge selectionRect - SCREEN_MARGIN \<longrightarrow>
          calculateVerticalPosition w selectionRect popupRect =
            (min (innerHeight w - height popupRect - SCREEN_MARGIN)
                 (bottom_edge selectionRect + TOTAL_OFFSET),
             Bottom)) \<and>
         (\<not> hasCollision selectionRect
              \<lparr>top_px = fst (calculateVerticalPosition w selectionRect popupRect),
               left_px = calculateHorizontalPosition w selectionRect popupRect,
               placement = snd (calculateVerticalPosition w selectionRect popupRect)\<rparr>
              popupRect \<longrightarrow>
          calculate w selectionRect popupRect =
            \<lparr>top_px = fst (calculateVerticalPosition w selectionRect popupRect),
             left_px = calculateHorizontalPosition w selectionRect popupRect,
             placement = snd (calculateVerticalPosition w selectionRect popupRect)\<rparr>)"
proof (intro conjI impI)
  assume "top_edge selectionRect - SCREEN_MARGIN
            \<ge> innerHeight w - bottom_edge selectionRect - SCREEN_MARGIN"
  with assms show "calculateVerticalPosition w selectionRect popupRect =
      (max SCREEN_MARGIN (top_edge selectionRect - height popupRect - TOTAL_OFFSET), Top)"
    by (simp add: calculateVerticalPosition_def Let_def)
next
  assume "top_edge selectionRect - SCREEN_MARGIN
            < innerHeight w - bottom_edge selectionRect - SCREEN_MARGIN"
  with assms show "calculateVerticalPosition w selectionRect popupRect =
      (min (innerHeight w - height popupRect - SCREEN_MARGIN)
           (bottom_edge selectionRect + TOTAL_OFFSET), Bottom)"
    by (simp add: calculateVerticalPosition_def Let_def)
next
  assume "\<not> hasCollision selectionRect
      \<lparr>top_px = fst (calculateVerticalPosition w selectionRect popupRect),
       left_px = calculateHorizontalPosition w selectionRect popupRect,
       placement = snd (calculateVerticalPosition w selectionRect popupRect)\<rparr> popupRect"
  then show "calculate w selectionRect popupRect =
      \<lparr>top_px = fst (calculateVerticalPosition w selectionRect popupRect),
       left_px = calculateHorizontalPosition w selectionRect popupRect,
       placement = snd (calculateVerticalPosition w selectionRect popupRect)\<rparr>"
    by (simp add: calculate_def Let_def split_beta)
qed

text \<open>
  Two instances, both in a viewport 100px high with a popup that fits on neither side:
  a tie (selection 40 to 60, popup 20 high), which goes above, and a selection with
  less space above than below (20 to 40, popup 40 high), which goes below. In both the
  collision check does not fire and \<open>calculate\<close> returns the step's choice.
\<close>

theorem calculateVerticalPosition_fallback_side_witness:
  "top_edge \<lparr>rect_x = 100, rect_y = 40, width = 80, height = 20\<rparr> - SCREEN_MARGIN
     = innerHeight \<lparr>innerWidth = 1000, innerHeight = 100\<rparr>
         - bottom_edge \<lparr>rect_x = 100, rect_y = 40, width = 80, height = 20\<rparr> - SCREEN_MARGIN \<and>
   calculateVerticalPosition \<lparr>innerWidth = 1000, innerHeight = 100\<rparr>
     \<lparr>rect_x = 100, rect_y = 40, width = 80, height = 20\<rparr>
     \<lparr>rect_x = 0, rect_y = 0, width = 120, height = 20\<rparr> = (10, Top) \<and>
   calculate \<lparr>innerWidth = 1000, innerHeight = 100\<rparr>
     \<lparr>rect_x = 100, rect_y = 40, width = 80, height = 20\<rparr>
     \<lparr>rect_x = 0, rect_y = 0, width = 120, height = 20\<rparr>
   = \<lparr>top_px = 10, left_px = 80, placement = Top\<rparr> \<and>
   top_edge \<lparr>rect_x = 100, rect_y = 20, width = 80, height = 20\<rparr> - SCREEN_MARGIN
     < innerHeight \<lparr>innerWidth = 1000, innerHeight = 100\<rparr>
         - bottom_edge \<lparr>rect_x = 100, rect_y = 20, width = 80, height = 20\<rparr> - SCREEN_MARGIN \<and>
   calculateVerticalPosition \<lparr>innerWidth = 1000, innerHeight = 100\<rparr>
     \<lparr>rect_x = 100, rect_y = 20, width = 80, height = 20\<rparr>
     \<lparr>rect_x = 0, rect_y = 0, width = 120, height = 40\<rparr> = (50, Bottom) \<and>
   calculate \<lparr>innerWidth = 1000, innerHeight = 100\<rparr>
     \<lparr>rect_x = 100, rect_y = 20, width = 80, height = 20\<rparr>
     \<lparr>rect_x = 0, rect_y = 0, width = 120, height = 40\<rparr>
   = \<lparr>top_px = 50, left_px = 80, placement = Bottom\<rparr>"
proof -
  let ?w = "\<lparr>innerWidth = 1000, innerHeight = 100\<rparr>"
  let ?s1 = "\<lparr>rect_x = 100, rect_y = 40, width = 80, height = 20\<rparr>"
  let ?p1 = "\<lparr>rect_x = 0, rect_y = 0, width = 120, height = 20\<rparr>"
  let ?s2 = "\<lparr>rect_x = 100, rect_y = 20, width = 80, height = 20\<rparr>"
  let ?p2 = "\<lparr>rect_x = 0, rect_y = 0, width = 120, height = 40\<rparr>"
  have above1: "top_edge ?s1 - height ?p1 - TOTAL_OFFSET < SCREEN_MARGIN"
    and below1: "bottom_edge ?s1 + TOTAL_OFFSET + height ?p1 > innerHeight ?w - SCREEN_MARGIN"
    and tie: "top_edge ?s1 - SCREEN_MARGIN = innerHeight ?w - bottom_edge ?s1 - SCREEN_MARGIN"
    by (simp_all add: edge_defs PopupConfig_defs)
  have above2: "top_edge ?s2 - height ?p2 - TOTAL_OFFSET < SCREEN_MARGIN"
    and below2: "bottom_edge ?s2 + TOTAL_OFFSET + height ?p2 > innerHeight ?w - SCREEN_MARGIN"
    and less: "top_edge ?s2 - SCREEN_MARGIN < innerHeight ?w - bottom_edge ?s2 - SCREEN_MARGIN"
    by (simp_all add: edge_defs PopupConfig_defs)
  from tie have ge: "top_edge ?s1 - SCREEN_MARGIN \<ge> innerHeight ?w - bottom_edge ?s1 - SCREEN_MARGIN"
    by simp
  from calculateVerticalPosition_fallback_side [OF above1 below1] ge
  have v1: "calculateVerticalPosition ?w ?s1 ?p1 =
      (max SCREEN_MARGIN (top_edge ?s1 - height ?p1 - TOTAL_OFFSET), Top)"
    by blast
  then have v1': "calculateVerticalPosition ?w ?s1 ?p1 = (10, Top)"
    by (simp add: edge_defs PopupConfig_defs)
  have free1: "\<not> hasCollision ?s1
      \<lparr>top_px = fst (calculateVerticalPosition ?w ?s1 ?p1),
       left_px = calculateHorizontalPosition ?w ?s1 ?p1,
       placement = snd (calculateVerticalPosition ?w ?s1 ?p1)\<rparr> ?p1"
    unfolding v1'
    by (simp add: hasCollision_def calculateHorizontalPosition_def clampToHorizontalBounds_def
        edge_defs PopupConfig_defs)
  from calculateVerticalPosition_fallback_side [OF above1 below1] free1
  have "calculate ?w ?s1 ?p1 =
      \<lparr>top_px = fst (calculateVerticalPosition ?w ?s1 ?p1),
       left_px = calculateHorizontalPosition ?w ?s1 ?p1,
       placement = snd (calculateVerticalPosition ?w ?s1 ?p1)\<rparr>"
    by blast
  then have c1: "calculate ?w ?s1 ?p1 = \<lparr>top_px = 10, left_px = 80, placement = Top\<rparr>"
    unfolding v1'
    by (simp add: calculateHorizontalPosition_def clampToHorizontalBounds_def
        edge_defs PopupConfig_defs)
  from calculateVerticalPosition_fallback_side [OF above2 below2] less
  have v2: "calculateVerticalPosition ?w ?s2 ?p2 =
      (min (innerHeight ?w - height ?p2 - SCREEN_MARGIN) (bottom_edge ?s2 + TOTAL_OFFSET),
       Bottom)"
    by blast
  then have v2': "calculateVerticalPosition ?w ?s2 ?p2 = (50, Bottom)"
    by (simp add: edge_defs PopupConfig_defs)
  have free2: "\<not> hasCollision ?s2
      \<lparr>top_px = fst (calculateVerticalPosition ?w ?s2 ?p2),
       left_px = calculateHorizontalPosition ?w ?s2 ?p2,
       placement = snd (calculateVerticalPosition ?w ?s2 ?p2)\<rparr> ?p2"
    unfolding v2'
    by (simp add: hasCollision_def calculateHorizontalPosition_def clampToHorizontalBounds_def
        edge_defs PopupConfig_defs)
  from calculateVerticalPosition_fallback_side [OF above2 below2] free2
  have "calculate ?w ?s2 ?p2 =
      \<lparr>top_px = fst (calculateVerticalPosition ?w ?s2 ?p2),
       left_px = calculateHorizontalPosition ?w ?s2 ?p2,
       placement = snd (calculateVerticalPosition ?w ?s2 ?p2)\<rparr>"
    by blast
  then have c2: "calculate ?w ?s2 ?p2 = \<lparr>top_px = 50, left_px = 80, placement = Bottom\<rparr>"
    unfolding v2'
    by (simp add: calculateHorizontalPosition_def clampToHorizontalBounds_def
        edge_defs PopupConfig_defs)
  from tie v1' c1 less v2' c2 show ?thesis
    by (intro conjI)
qed

text \<open>
  Claim C7: for the selection rectangle \<open>{top: 15, left: 100, width: 80, height: 20}\<close>, a
  popup of 120 by 40 and a viewport of 1000 by 800, the placement above is rejected
  (\<open>15 - 40 - 16 = -41 < 10\<close>) and \<open>calculate\<close> returns the placement below, with
  \<open>top = 15 + 20 + 16 = 51\<close>. The popup's own origin plays no part.
\<close>

theorem calculate_scenario_below:
  "top_edge \<lparr>rect_x = 100, rect_y = 15, width = 80, height = 20\<rparr>
     - height \<lparr>rect_x = px, rect_y = py, width = 120, height = 40\<rparr> - TOTAL_OFFSET = - 41 \<and>
   - 41 < SCREEN_MARGIN \<and>
   calculateVerticalPosition \<lparr>innerWidth = 1000, innerHeight = 800\<rparr>
     \<lparr>rect_x = 100, rect_y = 15, width = 80, height = 20\<rparr>
     \<lparr>rect_x = px, rect_y = py, width = 120, height = 40\<rparr> = (15 + 20 + 16, Bottom) \<and>
   calculate \<lparr>innerWidth = 1000, innerHeight = 800\<rparr>
     \<lparr>rect_x = 100, rect_y = 15, width = 80, height = 20\<rparr>
     \<lparr>rect_x = px, rect_y = py, width = 120, height = 40\<rparr>
   = \<lparr>top_px = 51, left_px = 80, placement = Bottom\<rparr>"
  by (simp add: calculator_defs edge_defs PopupConfig_defs)

text \<open>
  Claim C10: the left coordinate returned by \<open>calculate\<close> is at least
  \<open>SCREEN_MARGIN = 10\<close>, whether the normal result or the forced position is returned;
  and when the popup is wider than \<open>viewportWidth - 2 * SCREEN_MARGIN\<close> the left
  coordinate is exactly 10, so that the popup can leave the viewport on the right only.
\<close>

theorem calculate_left_at_least_margin:
  "SCREEN_MARGIN = 10 \<and>
   SCREEN_MARGIN \<le> left_px (calculate w selectionRect popupRect) \<and>
   SCREEN_MARGIN \<le> left_px (forceSafePosition w selectionRect popupRect) \<and>
   (width popupRect > innerWidth w - 2 * SCREEN_MARGIN \<longrightarrow>
      left_px (calculate w selectionRect popupRect) = 10 \<and>
      left_px (forceSafePosition w selectionRect popupRect) = 10)"
  unfolding calculate_def forceSafePosition_def calculateHorizontalPosition_def
    clampToHorizontalBounds_def Let_def SCREEN_MARGIN_def
  by (auto split: if_splits prod.splits)

theorem calculate_left_at_least_margin_witness:
  "width \<lparr>rect_x = 0, rect_y = 0, width = 400, height = 40\<rparr>
     > innerWidth \<lparr>innerWidth = 300, innerHeight = 800\<rparr> - 2 * SCREEN_MARGIN \<and>
   left_px (calculate \<lparr>innerWidth = 300, innerHeight = 800\<rparr>
     \<lparr>rect_x = 100, rect_y = 500, width = 80, height = 20\<rparr>
     \<lparr>rect_x = 0, rect_y = 0, width = 400, height = 40\<rparr>) = 10"
proof -
  have wide: "width \<lparr>rect_x = 0, rect_y = 0, width = 400, height = 40\<rparr>
     > innerWidth \<lparr>innerWidth = 300, innerHeight = 800\<rparr> - 2 * SCREEN_MARGIN"
    by (simp add: SCREEN_MARGIN_def)
  from calculate_left_at_least_margin
    [of "\<lparr>innerWidth = 300, innerHeight = 800\<rparr>"
        "\<lparr>rect_x = 100, rect_y = 500, width = 80, height = 20\<rparr>"
        "\<lparr>rect_x = 0, rect_y = 0, width = 400, height = 40\<rparr>"] wide
  show ?thesis
    by blast
qed

section \<open>Properties of the link text\<close>

lemma filter_replaceGlobal:
  "filter P pat = [] \<Longrightarrow> filter P (replaceGlobal pat [] s) = filter P s"
proof (induction pat "[] :: string" s rule: replaceGlobal.induct)
  case (1 pat)
  then show ?case by simp
next
  case (2 pat c cs)
  show ?case
  proof (cases "pat \<noteq> [] \<and> prefix pat (c # cs)")
    case True
    then obtain zs where zs: "c # cs = pat @ zs"
      by (auto simp: prefix_def)
    then have d: "drop (length pat) (c # cs) = zs"
      by (metis append_eq_conv_conj)
    have "filter P (c # cs) = filter P zs"
      using zs 2(3) by (metis append_Nil filter_append)
    with True 2 d show ?thesis
      by simp
  next
    case False
    with 2 show ?thesis
      by auto
  qed
qed

lemma replaceGlobal_single: "replaceGlobal [a] [] s = filter (\<lambda>c. c \<noteq> a) s"
  by (induction s) auto

lemma linkedText_stripBrackets: "linkedText s = ''[['' @ stripBrackets s @ '']]''"
proof -
  have "filter (\<lambda>c. c \<noteq> CHR '']'') (filter (\<lambda>c. c \<noteq> CHR ''['')
          (replaceGlobal '']]'' '''' (replaceGlobal ''[['' '''' s)))
        = filter (\<lambda>c. c \<noteq> CHR '']'') (filter (\<lambda>c. c \<noteq> CHR ''['') s)"
    by (simp add: filter_replaceGlobal)
  then show ?thesis
    unfolding linkedText_def Let_def replaceGlobal_single stripBrackets_def isBracket_def
    by (simp add: conj_commute)
qed

lemma stripBrackets_append: "stripBrackets (xs @ ys) = stripBrackets xs @ stripBrackets ys"
  by (simp add: stripBrackets_def)

lemma stripBrackets_idem: "stripBrackets (stripBrackets s) = stripBrackets s"
  by (simp add: stripBrackets_def)

lemma stripBrackets_linkedText: "stripBrackets (linkedText s) = stripBrackets s"
  unfolding linkedText_stripBrackets stripBrackets_append stripBrackets_idem
  by (simp add: stripBrackets_def isBracket_def)

lemma count_list_stripBrackets:
  "count_list (stripBrackets s) CHR ''['' = 0" "count_list (stripBrackets s) CHR '']'' = 0"
  by (induction s) (simp_all add: stripBrackets_def isBracket_def)

text \<open>
  Claim C3: the bracket rewrite of \<open>convertToLink\<close> is idempotent: applied to a text
  that is already its output it gives the same text. In particular \<open>[[x]]\<close> stays
  \<open>[[x]]\<close>, \<open>[x]\<close> becomes \<open>[[x]]\<close> and \<open>te[x]t\<close> becomes \<open>[[text]]\<close>.
\<close>

theorem linkedText_idempotent:
  "linkedText (linkedText s) = linkedText s \<and>
   linkedText ''[[x]]'' = ''[[x]]'' \<and>
   linkedText ''[x]'' = ''[[x]]'' \<and>
   linkedText ''te[x]t'' = ''[[text]]''"
proof -
  have "linkedText (linkedText s) = ''[['' @ stripBrackets (linkedText s) @ '']]''"
    by (rule linkedText_stripBrackets)
  also have "\<dots> = linkedText s"
    by (simp only: stripBrackets_linkedText) (simp add: linkedText_stripBrackets)
  finally have idem: "linkedText (linkedText s) = linkedText s" .
  have "linkedText ''[[x]]'' = ''[[x]]''" "linkedText ''[x]'' = ''[[x]]''"
    "linkedText ''te[x]t'' = ''[[text]]''"
    by (simp_all add: linkedText_def)
  with idem show ?thesis
    by simp
qed

text \<open>
  Claim C4: whatever mix of \<open>[\<close>, \<open>]\<close>, \<open>[[\<close> and \<open>]]\<close> the input holds, the
  output of the rewrite has exactly two opening and exactly two closing brackets, the
  opening ones being its first two characters and the closing ones its last two, with
  no bracket in between; and \<open>a[b]]c[[d\<close> becomes \<open>[[abcd]]\<close>.
\<close>

theorem linkedText_brackets_at_ends:
  "count_list (linkedText s) CHR ''['' = 2 \<and>
   count_list (linkedText s) CHR '']'' = 2 \<and>
   take 2 (linkedText s) = ''[['' \<and>
   drop (length (linkedText s) - 2) (linkedText s) = '']]'' \<and>
   filter isBracket (take (length (linkedText s) - 4) (drop 2 (linkedText s))) = [] \<and>
   linkedText ''a[b]]c[[d'' = ''[[abcd]]''"
proof -
  have c1: "count_list (linkedText s) CHR ''['' = 2"
    by (simp add: linkedText_stripBrackets count_list_stripBrackets)
  have c2: "count_list (linkedText s) CHR '']'' = 2"
    by (simp add: linkedText_stripBrackets count_list_stripBrackets)
  have t: "take 2 (linkedText s) = ''[[''"
    by (simp add: linkedText_stripBrackets)
  have d: "drop (length (linkedText s) - 2) (linkedText s) = '']]''"
    by (simp add: linkedText_stripBrackets)
  have "take (length (linkedText s) - 4) (drop 2 (linkedText s)) = stripBrackets s"
    by (simp add: linkedText_stripBrackets)
  then have m: "filter isBracket (take (length (linkedText s) - 4) (drop 2 (linkedText s))) = []"
    by (simp add: stripBrackets_def)
  have e: "linkedText ''a[b]]c[[d'' = ''[[abcd]]''"
    by (simp add: linkedText_def)
  from c1 c2 t d m e show ?thesis
    by blast
qed

text \<open>
  Claim C9: with an editor bound and a non-empty text \<open>s\<close> selected in it,
  \<open>convertToLink\<close> replaces the selection by \<open>[[\<close>, \<open>strip s\<close>, \<open>]]\<close>, where
  \<open>strip s\<close> is \<open>s\<close> without its brackets: the document before and behind the
  selection is unchanged, and the characters of the new text other than brackets are
  those of \<open>s\<close>, in their order.
\<close>

theorem convertToLink_replaces_selection:
  assumes "editor sh = Some r" and "getSelection (editors h r) = s" and "s \<noteq> []"
  shows "convertToLink sh h =
           h\<lparr>editors := (editors h)(r := replaceSelection (''[['' @ stripBrackets s @ '']]'')
                                           (editors h r))\<rparr> \<and>
         documentText (editors (convertToLink sh h) r) =
           beforeSelection (editors h r) @ ''[['' @ stripBrackets s @ '']]''
             @ afterSelection (editors h r) \<and>
         stripBrackets (linkedText s) = stripBrackets s"
proof -
  have lt: "linkedText s = ''[['' @ stripBrackets s @ '']]''"
    by (rule linkedText_stripBrackets)
  have conv: "convertToLink sh h =
      h\<lparr>editors := (editors h)(r := replaceSelection (linkedText s) (editors h r))\<rparr>"
    using assms by (simp add: convertToLink_def getSelectedText_def Let_def)
  then have doc: "documentText (editors (convertToLink sh h) r) =
      beforeSelection (editors h r) @ linkedText s @ afterSelection (editors h r)"
    by (simp add: documentText_def replaceSelection_def)
  from conv have c1: "convertToLink sh h =
      h\<lparr>editors := (editors h)(r := replaceSelection (''[['' @ stripBrackets s @ '']]'')
                                      (editors h r))\<rparr>"
    by (simp only: lt)
  from doc have c2: "documentText (editors (convertToLink sh h) r) =
      beforeSelection (editors h r) @ ''[['' @ stripBrackets s @ '']]''
        @ afterSelection (editors h r)"
    by (simp only: lt append_assoc)
  have c3: "stripBrackets (linkedText s) = stripBrackets s"
    by (rule stripBrackets_linkedText)
  from c1 c2 c3 show ?thesis
    by (intro conjI)
qed

theorem convertToLink_replaces_selection_witness:
  "editor \<lparr>editor = Some 0\<rparr> = Some 0 \<and>
   getSelection (editors exampleHost 0) = ''a[b]]c[[d'' \<and>
   ''a[b]]c[[d'' \<noteq> [] \<and>
   documentText (editors (convertToLink \<lparr>editor = Some 0\<rparr> exampleHost) 0)
     = ''see [[abcd]] now''"
proof -
  have b: "editor \<lparr>editor = Some 0\<rparr> = Some 0"
    by simp
  have g: "getSelection (editors exampleHost 0) = ''a[b]]c[[d''"
    by (simp add: exampleHost_def getSelection_def)
  have n: "''a[b]]c[[d'' \<noteq> []"
    by simp
  from convertToLink_replaces_selection [OF b g n]
  have "documentText (editors (convertToLink \<lparr>editor = Some 0\<rparr> exampleHost) 0)
     = beforeSelection (editors exampleHost 0) @ ''[['' @ stripBrackets ''a[b]]c[[d'' @ '']]''
         @ afterSelection (editors exampleHost 0)"
    by blast
  then have "documentText (editors (convertToLink \<lparr>editor = Some 0\<rparr> exampleHost) 0)
     = ''see [[abcd]] now''"
    by (simp add: exampleHost_def stripBrackets_def isBracket_def)
  with b g n show ?thesis
    by blast
qed

section \<open>Properties of the popup manager\<close>

text \<open>
  Claim C8: while no popup element is held, every operation of the popup manager is a
  guarded no-op and none is an error: \<open>hide\<close> leaves the manager as it is, \<open>show\<close>
  changes neither the manager nor the host (nothing is attached, no frame callback is
  requested), \<open>position\<close> changes nothing, \<open>getElement\<close> answers that there is no
  element and \<open>exists\<close> is false. After \<open>hide\<close>, from any state, \<open>exists\<close> is false.
\<close>

theorem PopupManager_guarded_when_absent:
  "(popup pm = None \<longrightarrow>
      PopupManager_hide pm = pm \<and>
      PopupManager_show (pm, h) = (pm, h) \<and>
      PopupManager_position position pm = pm \<and>
      PopupManager_getElement pm = None \<and>
      \<not> PopupManager_exists pm) \<and>
   \<not> PopupManager_exists (PopupManager_hide pm)"
  by (simp add: PopupManager_hide_def PopupManager_show_def PopupManager_position_def
      PopupManager_getElement_def PopupManager_exists_def split: option.splits)

theorem PopupManager_guarded_when_absent_witness:
  "popup \<lparr>popup = None\<rparr> = None \<and>
   PopupManager_hide \<lparr>popup = None\<rparr> = \<lparr>popup = None\<rparr> \<and>
   PopupManager_show (\<lparr>popup = None\<rparr>, exampleHost) = (\<lparr>popup = None\<rparr>, exampleHost) \<and>
   PopupManager_position \<lparr>top_px = 444, left_px = 80, placement = Top\<rparr> \<lparr>popup = None\<rparr>
     = \<lparr>popup = None\<rparr> \<and>
   PopupManager_getElement \<lparr>popup = None\<rparr> = None \<and>
   \<not> PopupManager_exists (PopupManager_hide (PopupManager_create \<lparr>popup = None\<rparr>))"
proof -
  have absent: "popup \<lparr>popup = None\<rparr> = None"
    by simp
  from PopupManager_guarded_when_absent
    [of "\<lparr>popup = None\<rparr>" exampleHost "\<lparr>top_px = 444, left_px = 80, placement = Top\<rparr>"]
    PopupManager_guarded_when_absent [of "PopupManager_create \<lparr>popup = None\<rparr>"]
    absent
  show ?thesis
    by blast
qed

section \<open>Properties of the plugin\<close>

lemma hasValidSelection_cong:
  "editor sh = editor sh' \<Longrightarrow> editors h = editors h' \<Longrightarrow>
   hasValidSelection sh h = hasValidSelection sh' h'"
  by (simp add: hasValidSelection_def getSelectedText_def split: option.splits)

lemma hasValidSelection_host:
  "hasValidSelection sh (h\<lparr>timers := t\<rparr>) = hasValidSelection sh h"
  "hasValidSelection sh (h\<lparr>frames := fs\<rparr>) = hasValidSelection sh h"
  "hasValidSelection sh (h\<lparr>activeEditor := a\<rparr>) = hasValidSelection sh h"
  "hasValidSelection sh (h\<lparr>rangeRect := rr, window := w, popupLayout := pl\<rparr>)
     = hasValidSelection sh h"
  by (rule hasValidSelection_cong; simp)+

lemma not_exists_hide: "\<not> PopupManager_exists (PopupManager_hide pm)"
  by (simp add: PopupManager_hide_def PopupManager_exists_def split: option.splits)

lemma exists_position:
  "PopupManager_exists (PopupManager_position p pm) = PopupManager_exists pm"
  by (simp add: PopupManager_position_def PopupManager_exists_def Let_def split: option.splits)

lemma exists_addShowClass:
  "PopupManager_exists (addShowClass pm) = PopupManager_exists pm"
  by (simp add: addShowClass_def PopupManager_exists_def split: option.splits)

lemma visible_exists: "PopupManager_visible pm \<Longrightarrow> PopupManager_exists pm"
  by (simp add: PopupManager_visible_def PopupManager_exists_def split: option.splits)

lemma not_exists_hidePopup: "\<not> PopupManager_exists (popupManager (hidePopup s))"
  by (simp add: hidePopup_def not_exists_hide)

lemma inv_hidePopup: "selectionInvariant (hidePopup s)"
  by (simp add: selectionInvariant_def not_exists_hidePopup)

lemma inv_positionPopup: "selectionInvariant s \<Longrightarrow> selectionInvariant (positionPopup s)"
  by (auto simp: selectionInvariant_def positionPopup_def exists_position Let_def
      split: option.splits prod.splits)

lemma inv_updatePopupPosition:
  "selectionInvariant s \<Longrightarrow> selectionInvariant (updatePopupPosition s)"
  by (auto simp: selectionInvariant_def updatePopupPosition_def hidePopup_def exists_position
      not_exists_hide Let_def split: option.splits prod.splits)

lemma inv_runFrameCallback:
  assumes "selectionInvariant s"
  shows "selectionInvariant (runFrameCallback cb s)"
proof (cases cb)
  case AddShowClass
  with assms show ?thesis
    by (simp add: selectionInvariant_def exists_addShowClass)
next
  case PositionAndRelease
  with inv_positionPopup [OF assms] show ?thesis
    by (simp add: selectionInvariant_def positionAndRelease_def)
qed

lemma inv_frames:
  "selectionInvariant s \<Longrightarrow> selectionInvariant (fold runFrameCallback cbs s)"
  by (induction cbs arbitrary: s) (simp_all add: inv_runFrameCallback)

lemma showPopup_selectionHandler: "selectionHandler (showPopup s) = selectionHandler s"
  by (simp add: showPopup_def Let_def hidePopup_def split: prod.splits)

lemma showPopup_editors: "editors (host (showPopup s)) = editors (host s)"
  by (auto simp add: showPopup_def Let_def hidePopup_def PopupManager_show_def
      PopupManager_create_def requestAnimationFrame_def split: prod.splits option.splits)

lemma inv_showPopup:
  assumes "hasValidSelection (selectionHandler s) (host s)"
  shows "selectionInvariant (showPopup s)"
proof -
  have "hasValidSelection (selectionHandler (showPopup s)) (host (showPopup s))
        = hasValidSelection (selectionHandler s) (host s)"
    by (rule hasValidSelection_cong) (simp_all add: showPopup_selectionHandler showPopup_editors)
  with assms show ?thesis
    by (simp add: selectionInvariant_def)
qed

lemma checkSelection_unguarded:
  assumes "\<not> isProcessing s" and "activeEditor (host s) = Some r"
  shows "checkSelection s =
     (if hasValidSelection (setEditor r (selectionHandler s)) (host s)
      then showPopup (s\<lparr>selectionHandler := setEditor r (selectionHandler s)\<rparr>)
      else hidePopup (s\<lparr>selectionHandler := setEditor r (selectionHandler s)\<rparr>))"
  using assms by (simp add: checkSelection_def Let_def)

lemma inv_checkSelection:
  assumes "selectionInvariant s"
  shows "selectionInvariant (checkSelection s)"
proof (cases "isProcessing s")
  case True
  with assms show ?thesis
    by (simp add: checkSelection_def)
next
  case False
  show ?thesis
  proof (cases "activeEditor (host s)")
    case None
    with False show ?thesis
      by (simp add: checkSelection_def inv_hidePopup)
  next
    case (Some r)
    show ?thesis
      unfolding checkSelection_unguarded [OF False Some]
      by (simp add: inv_showPopup inv_hidePopup)
  qed
qed

lemma inv_handleSelectionChange: "selectionInvariant (handleSelectionChange s)"
  by (simp add: handleSelectionChange_def inv_hidePopup) (simp add: selectionInvariant_def)

lemma inv_checkSelection_unguarded:
  assumes "\<not> isProcessing s"
  shows "selectionInvariant (checkSelection s)"
proof (cases "activeEditor (host s)")
  case None
  with assms show ?thesis
    by (simp add: checkSelection_def inv_hidePopup)
next
  case (Some r)
  show ?thesis
    unfolding checkSelection_unguarded [OF assms Some]
    by (simp add: inv_showPopup inv_hidePopup)
qed

lemma inv_step:
  assumes "selectionInvariant s" and "\<not> isEditorChange e"
  shows "selectionInvariant (step e s)"
proof (cases e)
  case MouseUp
  with assms show ?thesis
    by (simp add: selectionInvariant_def handleMouseUp_def setTimeout_def hasValidSelection_host)
next
  case (KeyUp ev)
  with assms show ?thesis
    by (simp add: handleKeyUp_def inv_hidePopup Let_def)
       (simp add: selectionInvariant_def setTimeout_def hasValidSelection_host)
next
  case (EditorChange r ed)
  with assms show ?thesis
    by simp
next
  case SelectionChange
  then show ?thesis
    by (simp add: inv_handleSelectionChange)
next
  case ScrollOrResize
  with assms show ?thesis
    by (simp add: handleScrollOrResize_def inv_updatePopupPosition)
next
  case (Relayout rr w pl)
  with assms show ?thesis
    by (simp add: selectionInvariant_def hasValidSelection_host)
next
  case (ActiveLeafChange a)
  then show ?thesis
    by (simp add: inv_hidePopup)
next
  case Timeout
  from assms have "selectionInvariant (s\<lparr>host := (host s)\<lparr>timers := timers (host s) - 1\<rparr>\<rparr>)"
    by (simp add: selectionInvariant_def hasValidSelection_host)
  with Timeout show ?thesis
    by (simp add: inv_checkSelection)
next
  case AnimationFrame
  from assms have "selectionInvariant (s\<lparr>host := (host s)\<lparr>frames := []\<rparr>\<rparr>)"
    by (simp add: selectionInvariant_def hasValidSelection_host)
  with AnimationFrame show ?thesis
    by (simp add: inv_frames)
next
  case ButtonClick
  then show ?thesis
    by (simp add: handleConvertToLink_def inv_hidePopup)
next
  case Unload
  then show ?thesis
    by (simp add: onunload_def inv_hidePopup)
qed

lemma exists_runFrameCallback:
  "PopupManager_exists (popupManager (runFrameCallback cb s)) = PopupManager_exists (popupManager s)"
  by (cases cb)
     (auto simp: exists_addShowClass positionAndRelease_def positionPopup_def exists_position
        Let_def split: option.splits prod.splits)

lemma exists_frames:
  "PopupManager_exists (popupManager (fold runFrameCallback cbs s))
     = PopupManager_exists (popupManager s)"
  by (induction cbs arbitrary: s) (simp_all add: exists_runFrameCallback)

lemma exists_updatePopupPosition:
  "PopupManager_exists (popupManager (updatePopupPosition s)) \<Longrightarrow>
   PopupManager_exists (popupManager s)"
  by (auto simp: updatePopupPosition_def exists_position not_exists_hidePopup Let_def
      split: option.splits prod.splits)

lemma valid_showPopup:
  "hasValidSelection (selectionHandler (showPopup s)) (host (showPopup s))
     = hasValidSelection (selectionHandler s) (host s)"
  by (rule hasValidSelection_cong) (simp_all add: showPopup_selectionHandler showPopup_editors)

lemma created_checkSelection:
  assumes "PopupManager_exists (popupManager (checkSelection s))"
    and "\<not> PopupManager_exists (popupManager s)"
  shows "hasValidSelection (selectionHandler (checkSelection s)) (host (checkSelection s))"
proof (cases "isProcessing s")
  case True
  with assms show ?thesis
    by (simp add: checkSelection_def)
next
  case False
  show ?thesis
  proof (cases "activeEditor (host s)")
    case None
    with False assms(1) show ?thesis
      by (simp add: checkSelection_def not_exists_hidePopup)
  next
    case (Some r)
    from assms(1) show ?thesis
      unfolding checkSelection_unguarded [OF False Some]
      by (simp add: not_exists_hidePopup valid_showPopup split: if_splits)
  qed
qed

lemma created_step:
  assumes "PopupManager_exists (popupManager (step e s))"
    and "\<not> PopupManager_exists (popupManager s)"
  shows "e = Timeout \<and> hasValidSelection (selectionHandler (step e s)) (host (step e s))"
proof (cases e)
  case MouseUp
  with assms show ?thesis
    by (simp add: handleMouseUp_def)
next
  case (KeyUp ev)
  with assms show ?thesis
    by (simp add: handleKeyUp_def not_exists_hidePopup Let_def split: if_splits)
next
  case (EditorChange r ed)
  with assms show ?thesis
    by simp
next
  case SelectionChange
  with assms show ?thesis
    by (simp add: handleSelectionChange_def not_exists_hidePopup split: if_splits)
next
  case ScrollOrResize
  with assms show ?thesis
    by (auto simp: handleScrollOrResize_def dest: exists_updatePopupPosition split: if_splits)
next
  case (Relayout rr w pl)
  with assms show ?thesis
    by simp
next
  case (ActiveLeafChange a)
  with assms show ?thesis
    by (simp add: not_exists_hidePopup)
next
  case Timeout
  with assms created_checkSelection [of "s\<lparr>host := (host s)\<lparr>timers := timers (host s) - 1\<rparr>\<rparr>"]
  show ?thesis
    by simp
next
  case AnimationFrame
  with assms show ?thesis
    by (simp add: exists_frames)
next
  case ButtonClick
  with assms show ?thesis
    by (simp add: handleConvertToLink_def not_exists_hidePopup)
next
  case Unload
  with assms show ?thesis
    by (simp add: onunload_def not_exists_hidePopup)
qed


lemmas plugin_defs = initialSystem_def exampleHost_def handleMouseUp_def setTimeout_def
  checkSelection_def setEditor_def hasValidSelection_def getSelectedText_def getSelection_def
  trim_def isWhiteSpace_def showPopup_def hidePopup_def PopupManager_hide_def
  PopupManager_create_def PopupManager_show_def requestAnimationFrame_def
  positionAndRelease_def positionPopup_def getSelectionRect_def PopupManager_getElement_def
  PopupManager_position_def addShowClass_def classList_add_def classList_remove_def
  handleSelectionChange_def PopupManager_exists_def PopupManager_visible_def
  POPUP_CLASS_def SHOW_CLASS_def PLACEMENT_TOP_CLASS_def PLACEMENT_BOTTOM_CLASS_def
  handleScrollOrResize_def updatePopupPosition_def

lemma reachable_shownExample: "reachable shownExample"
proof -
  have r0: "reachable (initialSystem exampleHost)"
    by (rule reachable.initial) (simp_all add: exampleHost_def)
  have r1: "reachable (step MouseUp (initialSystem exampleHost))"
    by (rule reachable.event [OF r0]) simp
  have r2: "reachable (step Timeout (step MouseUp (initialSystem exampleHost)))"
    by (rule reachable.event [OF r1]) (simp add: plugin_defs)
  show ?thesis
    unfolding shownExample_def
    by (rule reachable.event [OF r2]) (simp add: plugin_defs Let_def)
qed

text \<open>
  Claim C5, as stated, fails. The plugin learns of a change of the selection only when
  one of its handlers runs. In the example run the popup is shown on a valid selection;
  then the host changes the editor, so that only a space and a no-break space are
  selected, and the window is scrolled before \<^verbatim>\<open>selectionchange\<close> is delivered. The
  scroll handler places the popup anew without testing the selection: in the state it
  leaves, the popup exists and is visible although the selection is invalid.
\<close>

theorem popup_on_invalid_selection_counterexample:
  "reachable (step ScrollOrResize (step (EditorChange 0 blankSelection) shownExample)) \<and>
   \<not> hasValidSelection
       (selectionHandler (step ScrollOrResize (step (EditorChange 0 blankSelection) shownExample)))
       (host (step ScrollOrResize (step (EditorChange 0 blankSelection) shownExample))) \<and>
   PopupManager_exists
     (popupManager (step ScrollOrResize (step (EditorChange 0 blankSelection) shownExample))) \<and>
   PopupManager_visible
     (popupManager (step ScrollOrResize (step (EditorChange 0 blankSelection) shownExample)))"
proof -
  have r4: "reachable (step (EditorChange 0 blankSelection) shownExample)"
    by (rule reachable.event [OF reachable_shownExample]) simp
  have r5: "reachable (step ScrollOrResize (step (EditorChange 0 blankSelection) shownExample))"
    by (rule reachable.event [OF r4]) simp
  have invalid: "\<not> hasValidSelection
       (selectionHandler (step ScrollOrResize (step (EditorChange 0 blankSelection) shownExample)))
       (host (step ScrollOrResize (step (EditorChange 0 blankSelection) shownExample)))"
    by (simp add: shownExample_def blankSelection_def plugin_defs Let_def)
  have visible: "PopupManager_visible
     (popupManager (step ScrollOrResize (step (EditorChange 0 blankSelection) shownExample)))"
    by (simp add: shownExample_def blankSelection_def plugin_defs Let_def)
  then have "PopupManager_exists
     (popupManager (step ScrollOrResize (step (EditorChange 0 blankSelection) shownExample)))"
    by (rule visible_exists)
  with r5 invalid visible show ?thesis
    by (intro conjI)
qed

text \<open>
  Claim C5, amended: every event handler that tests the selection hides the popup when
  it finds the selection invalid. After \<open>handleSelectionChange\<close> on an invalid
  selection no popup exists or is visible; after \<open>checkSelection\<close>, when the guard
  \<open>isProcessing\<close> is down, no popup exists unless the selection of the editor it has
  bound is valid. Every event of the plugin other than the host's change of an editor
  preserves the invariant that no popup exists while the selection is invalid, and a
  popup comes into existence only when a timer runs \<open>checkSelection\<close> on a valid
  selection.
\<close>

theorem handlers_hide_on_invalid_selection:
  "(\<not> hasValidSelection (selectionHandler s) (host s) \<longrightarrow>
      \<not> PopupManager_exists (popupManager (handleSelectionChange s)) \<and>
      \<not> PopupManager_visible (popupManager (handleSelectionChange s))) \<and>
   (\<not> isProcessing s \<longrightarrow> selectionInvariant (checkSelection s)) \<and>
   (selectionInvariant s \<longrightarrow> \<not> isEditorChange e \<longrightarrow> selectionInvariant (step e s)) \<and>
   (PopupManager_exists (popupManager (step e s)) \<longrightarrow>
    \<not> PopupManager_exists (popupManager s) \<longrightarrow>
      e = Timeout \<and> hasValidSelection (selectionHandler (step e s)) (host (step e s)))"
proof (intro conjI impI)
  assume "\<not> hasValidSelection (selectionHandler s) (host s)"
  then show absent: "\<not> PopupManager_exists (popupManager (handleSelectionChange s))"
    by (simp add: handleSelectionChange_def not_exists_hidePopup)
  then show "\<not> PopupManager_visible (popupManager (handleSelectionChange s))"
    using visible_exists by blast
next
  assume "\<not> isProcessing s"
  then show "selectionInvariant (checkSelection s)"
    by (rule inv_checkSelection_unguarded)
next
  assume "selectionInvariant s" and "\<not> isEditorChange e"
  then show "selectionInvariant (step e s)"
    by (rule inv_step)
next
  assume created: "PopupManager_exists (popupManager (step e s))"
    "\<not> PopupManager_exists (popupManager s)"
  from created_step [OF created]
  have both: "e = Timeout \<and> hasValidSelection (selectionHandler (step e s)) (host (step e s))" .
  from both show "e = Timeout"
    by (rule conjunct1)
  from both show "hasValidSelection (selectionHandler (step e s)) (host (step e s))"
    by (rule conjunct2)
qed

theorem handlers_hide_on_invalid_selection_witness:
  "\<not> hasValidSelection (selectionHandler (step (EditorChange 0 blankSelection) shownExample))
       (host (step (EditorChange 0 blankSelection) shownExample)) \<and>
   PopupManager_visible (popupManager (step (EditorChange 0 blankSelection) shownExample)) \<and>
   \<not> PopupManager_exists
       (popupManager (step SelectionChange (step (EditorChange 0 blankSelection) shownExample))) \<and>
   \<not> PopupManager_exists (popupManager (step MouseUp (initialSystem exampleHost))) \<and>
   PopupManager_exists (popupManager (step Timeout (step MouseUp (initialSystem exampleHost)))) \<and>
   hasValidSelection
     (selectionHandler (step Timeout (step MouseUp (initialSystem exampleHost))))
     (host (step Timeout (step MouseUp (initialSystem exampleHost))))"
proof -
  have invalid: "\<not> hasValidSelection
       (selectionHandler (step (EditorChange 0 blankSelection) shownExample))
       (host (step (EditorChange 0 blankSelection) shownExample))"
    by (simp add: shownExample_def blankSelection_def plugin_defs Let_def)
  have visible: "PopupManager_visible
       (popupManager (step (EditorChange 0 blankSelection) shownExample))"
    by (simp add: shownExample_def blankSelection_def plugin_defs Let_def)
  from handlers_hide_on_invalid_selection
    [of "step (EditorChange 0 blankSelection) shownExample"] invalid
  have hidden: "\<not> PopupManager_exists
       (popupManager (step SelectionChange (step (EditorChange 0 blankSelection) shownExample)))"
    by simp
  have before: "\<not> PopupManager_exists (popupManager (step MouseUp (initialSystem exampleHost)))"
    by (simp add: plugin_defs)
  have after: "PopupManager_exists
       (popupManager (step Timeout (step MouseUp (initialSystem exampleHost))))"
    by (simp add: plugin_defs Let_def)
  from handlers_hide_on_invalid_selection
    [of "step MouseUp (initialSystem exampleHost)" Timeout] before after
  have valid: "hasValidSelection
     (selectionHandler (step Timeout (step MouseUp (initialSystem exampleHost))))
     (host (step Timeout (step MouseUp (initialSystem exampleHost))))"
    by blast
  from invalid visible hidden before after valid show ?thesis
    by (intro conjI)
qed

end
